theory Spec2Isabelle
  imports Main "HOL-Library.Sublist" "HOL-Library.Char_ord" "HOL-Library.List_Lexorder"
    "HOL-Library.Product_Lexorder" "HOL-Library.Multiset"
begin

section \<open>Python strings\<close>

text \<open>
  A Python \<open>str\<close> is modelled as a \<open>string\<close>: one \<open>char\<close> per code point, for the code
  points 0 to 255. The string methods below follow CPython on that range. A Python
  value that may be \<open>None\<close> is an \<open>option\<close>.
\<close>

definition py_isspace :: "char \<Rightarrow> bool" where
  \<comment> \<open>the code points below 256 for which \<open>str.isspace\<close> holds\<close>
  "py_isspace c = (c \<in> set [CHR 0x09, CHR 0x0A, CHR 0x0B, CHR 0x0C, CHR 0x0D,
       CHR 0x1C, CHR 0x1D, CHR 0x1E, CHR 0x1F, CHR 0x20, CHR 0x85, CHR 0xA0])"

definition py_lstrip :: "string \<Rightarrow> string" where
  "py_lstrip s = dropWhile py_isspace s"

definition py_rstrip :: "string \<Rightarrow> string" where
  "py_rstrip s = rev (dropWhile py_isspace (rev s))"

definition py_strip :: "string \<Rightarrow> string" where
  \<comment> \<open>\<open>s.strip()\<close>\<close>
  "py_strip s = py_rstrip (py_lstrip s)"

definition lower_char :: "char \<Rightarrow> char" where
  "lower_char c = (let n = (of_char c :: nat) in
     if (65 \<le> n \<and> n \<le> 90) \<or> (192 \<le> n \<and> n \<le> 222 \<and> n \<noteq> 215)
     then char_of (n + 32) else c)"

definition py_lower :: "string \<Rightarrow> string" where
  \<comment> \<open>\<open>s.lower()\<close>\<close>
  "py_lower s = map lower_char s"

fun py_split :: "char \<Rightarrow> string \<Rightarrow> string list" where
  \<comment> \<open>\<open>s.split(sep)\<close> for a separator of one character\<close>
  "py_split sep [] = [[]]"
| "py_split sep (c # cs) =
     (if c = sep then [] # py_split sep cs
      else (case py_split sep cs of
              [] \<Rightarrow> [[c]]
            | w # ws \<Rightarrow> (c # w) # ws))"

definition or_str :: "string option \<Rightarrow> string \<Rightarrow> string" where
  \<comment> \<open>\<open>v or d\<close> for an optional string \<open>v\<close>: \<open>None\<close> and the empty string are falsy\<close>
  "or_str v d = (case v of None \<Rightarrow> d | Some s \<Rightarrow> if s = [] then d else s)"

section \<open>Shared-Scan: the allow-list of extensions\<close>

type_synonym environ = "string \<Rightarrow> string option"

definition parse_allow_exts :: "environ \<Rightarrow> string set" where
  \<comment> \<open>\<open>medi_shared_files_scan.parse_allow_exts\<close>; the argument is \<open>os.getenv\<close>\<close>
  "parse_allow_exts getenv =
     (let exts = py_strip
            (or_str (getenv ''MEDI_SHARED_SCAN_EXTS'')
               (or_str (getenv ''MEDI_SHARED_EXTS'') ''zip,pdf,xlsx,xls,xml''))
      in set (map (\<lambda>e. py_lower (py_strip e))
                (filter (\<lambda>e. py_strip e \<noteq> []) (py_split CHR '','' exts))))"

section \<open>Shared-Scan: the observation ledger \<open>medi_shared_files\<close>\<close>

text \<open>
  \<open>SharedFileRow\<close> is the dataclass of \<open>db_shared_files.py\<close>. A row of the table carries
  the same columns, the key \<open>path_hash\<close>, the auto-increment \<open>shared_file_id\<close> and the
  probe columns that other stages own.
\<close>

record SharedFileRow =
  path :: string
  src_folder_raw :: "string option"
  dst_folder_norm :: "string option"
  facility_hint :: "string option"
  file_name :: string
  ext :: string
  file_size :: int
  mtime :: "string option"
  sha256 :: "string option"
  auto_judgement :: string
  manual_judgement :: "string option"
  stage_status :: string
  note_text :: "string option"
  first_seen_at :: string
  last_seen_at :: string

record shared_file = SharedFileRow +
  shared_file_id :: nat
  path_hash :: string
  zip_has_xml :: "bool option"
  zip_xml_count :: "int option"

record shared_files_table =
  sf_rows :: "shared_file list"
  sf_next_id :: nat

definition clip_text :: "string option \<Rightarrow> nat \<Rightarrow> string option" where
  \<comment> \<open>\<open>clip_text\<close>: \<open>t[:limit] if len(t) > limit else t\<close>\<close>
  "clip_text s limit =
     (case s of None \<Rightarrow> None
      | Some t \<Rightarrow> Some (if length t > limit then take limit t else t))"

definition coalesce :: "'a option \<Rightarrow> 'a option \<Rightarrow> 'a option" where
  \<comment> \<open>SQL \<open>COALESCE(a, b)\<close>\<close>
  "coalesce a b = (case a of None \<Rightarrow> b | Some x \<Rightarrow> Some x)"

definition sf_insert_row :: "string \<Rightarrow> nat \<Rightarrow> SharedFileRow \<Rightarrow> shared_file" where
  \<comment> \<open>the row that the \<open>INSERT\<close> of \<open>db_upsert_shared_file\<close> creates\<close>
  "sf_insert_row h i row =
     \<lparr> path = path row, src_folder_raw = src_folder_raw row,
       dst_folder_norm = dst_folder_norm row, facility_hint = facility_hint row,
       file_name = file_name row, ext = ext row, file_size = file_size row,
       mtime = mtime row, sha256 = sha256 row, auto_judgement = auto_judgement row,
       manual_judgement = manual_judgement row, stage_status = stage_status row,
       note_text = clip_text (note_text row) 1024,
       first_seen_at = first_seen_at row, last_seen_at = last_seen_at row,
       shared_file_id = i, path_hash = h, zip_has_xml = None, zip_xml_count = None \<rparr>"

definition sf_update_row :: "SharedFileRow \<Rightarrow> shared_file \<Rightarrow> shared_file" where
  \<comment> \<open>the \<open>ON DUPLICATE KEY UPDATE\<close> list of \<open>db_upsert_shared_file\<close>, applied to the
      existing row \<open>old\<close>\<close>
  "sf_update_row row old =
     old \<lparr> path := path row,
           src_folder_raw := src_folder_raw row,
           dst_folder_norm := dst_folder_norm row,
           facility_hint := facility_hint row,
           file_name := file_name row,
           ext := ext row,
           file_size := file_size row,
           mtime := mtime row,
           sha256 := coalesce (sha256 row) (sha256 old),
           auto_judgement := auto_judgement row,
           manual_judgement := coalesce (manual_judgement old) (manual_judgement row),
           stage_status := stage_status row,
           note_text := clip_text (note_text row) 1024,
           last_seen_at := last_seen_at row \<rparr>"

definition sf_find :: "shared_files_table \<Rightarrow> string \<Rightarrow> shared_file option" where
  "sf_find tbl h = find (\<lambda>r. path_hash r = h) (sf_rows tbl)"

definition db_upsert_shared_file ::
  "(string \<Rightarrow> string) \<Rightarrow> shared_files_table \<Rightarrow> SharedFileRow \<Rightarrow> shared_files_table \<times> nat" where
  \<comment> \<open>\<open>db_upsert_shared_file\<close>; \<open>sha1_text\<close> is the SHA-1 of the path, \<open>path_hash\<close> the
      unique key. Returns the new table and \<open>cur.lastrowid\<close>.\<close>
  "db_upsert_shared_file sha1_text tbl row =
     (let h = sha1_text (path row) in
      case sf_find tbl h of
        None \<Rightarrow>
          (tbl \<lparr> sf_rows := sf_rows tbl @ [sf_insert_row h (sf_next_id tbl) row],
                 sf_next_id := Suc (sf_next_id tbl) \<rparr>,
           sf_next_id tbl)
      | Some old \<Rightarrow>
          (tbl \<lparr> sf_rows := map (\<lambda>r. if path_hash r = h then sf_update_row row r else r)
                                (sf_rows tbl) \<rparr>,
           shared_file_id old))"

text \<open>What the loop of \<open>main\<close> has computed for one file \<open>fp\<close> before it builds the row.\<close>

record scanned_file =
  fp_path :: string
  fp_src_folder_raw :: "string option"
  fp_facility_hint :: string
  fp_name :: string
  fp_ext :: string
  fp_size :: int
  fp_mtime :: "string option"

definition scan_row :: "scanned_file \<Rightarrow> string \<Rightarrow> SharedFileRow" where
  \<comment> \<open>the \<open>SharedFileRow(...)\<close> built in \<open>main\<close> of \<open>medi_shared_files_scan.py\<close>;
      \<open>ts\<close> is the time stamp of the scan\<close>
  "scan_row fp ts =
     \<lparr> path = fp_path fp, src_folder_raw = fp_src_folder_raw fp, dst_folder_norm = None,
       facility_hint = Some (fp_facility_hint fp), file_name = fp_name fp, ext = fp_ext fp,
       file_size = fp_size fp, mtime = fp_mtime fp, sha256 = None,
       auto_judgement = ''UNKNOWN'', manual_judgement = None, stage_status = ''NEW'',
       note_text = None, first_seen_at = ts, last_seen_at = ts \<rparr>"

definition scan_upsert ::
  "(string \<Rightarrow> string) \<Rightarrow> shared_files_table \<Rightarrow> scanned_file \<Rightarrow> string \<Rightarrow> shared_files_table" where
  \<comment> \<open>one iteration of the scan loop: build the row and upsert it\<close>
  "scan_upsert sha1_text tbl fp ts = fst (db_upsert_shared_file sha1_text tbl (scan_row fp ts))"

text \<open>A ledger with one row that Stage-Copy has already advanced, and a scan of its path.\<close>

definition tag_hash :: "string \<Rightarrow> string" where
  \<comment> \<open>an injective stand-in for the SHA-1 of a path\<close>
  "tag_hash p = ''h:'' @ p"

definition copied_row :: shared_file where
  "copied_row =
     \<lparr> path = ''/share/a/Z1.zip'', src_folder_raw = Some ''a'', dst_folder_norm = None,
       facility_hint = Some ''share/a'', file_name = ''Z1.zip'', ext = ''zip'',
       file_size = 10, mtime = Some ''2026-01-01'', sha256 = Some ''ab12'',
       auto_judgement = ''KENSHIN'', manual_judgement = Some ''KENSHIN'',
       stage_status = ''INPUT_COPIED'', note_text = None,
       first_seen_at = ''2026-01-01'', last_seen_at = ''2026-01-02'',
       shared_file_id = 7, path_hash = ''h:/share/a/Z1.zip'',
       zip_has_xml = Some True, zip_xml_count = Some 1 \<rparr>"

definition copied_ledger :: shared_files_table where
  "copied_ledger = \<lparr> sf_rows = [copied_row], sf_next_id = 8 \<rparr>"

definition rescanned_file :: scanned_file where
  "rescanned_file =
     \<lparr> fp_path = ''/share/a/Z1.zip'', fp_src_folder_raw = Some ''a'',
       fp_facility_hint = ''share/a'', fp_name = ''Z1.zip'', fp_ext = ''zip'',
       fp_size = 10, fp_mtime = Some ''2026-01-01'' \<rparr>"

section \<open>The receipt tables\<close>

text \<open>
  Rows of \<open>medi_xml_receipts\<close>. The columns carry the prefix \<open>xr_\<close>. Time stamps are
  readings of the database clock. \<open>xr_updated_at\<close> is maintained by the database.
\<close>

record xml_receipt =
  xr_xml_receipt_id :: nat
  xr_zip_sha256 :: string
  xr_zip_inner_path :: string
  xr_zip_inner_path_sha256 :: "string option"
  xr_xml_sha256 :: string
  xr_file_size :: "int option"
  xr_file_mtime :: "string option"
  xr_status :: string
  xr_error_code :: "string option"
  xr_error_message :: "string option"
  xr_facility_code :: "string option"
  xr_facility_name :: "string option"
  xr_first_seen_run_id :: int
  xr_first_seen_at :: nat
  xr_last_seen_run_id :: int
  xr_last_seen_at :: nat
  xr_document_id :: "string option"
  xr_items_extract_status :: "string option"
  xr_items_extracted_run_id :: "int option"
  xr_updated_at :: nat

section \<open>Item-Extract: the selection of target receipts\<close>

definition item_extract_target :: "string \<Rightarrow> xml_receipt \<Rightarrow> bool" where
  \<comment> \<open>the \<open>WHERE\<close> clause of \<open>db_select_target_xmls_for_item_extract\<close>:
      \<open>status = target AND (items_extract_status IS NULL OR items_extract_status <> 'OK')\<close>\<close>
  "item_extract_target target_status r =
     (xr_status r = target_status
      \<and> (case xr_items_extract_status r of None \<Rightarrow> True | Some s \<Rightarrow> s \<noteq> ''OK''))"

definition db_select_target_xmls_for_item_extract ::
  "xml_receipt list \<Rightarrow> int \<Rightarrow> string \<Rightarrow> xml_receipt list" where
  \<comment> \<open>\<open>SELECT ... WHERE ... ORDER BY updated_at ASC LIMIT limit\<close>; rows with the same
      \<open>updated_at\<close> keep the order of the table\<close>
  "db_select_target_xmls_for_item_extract rows limit target_status =
     take (nat limit) (sort_key xr_updated_at (filter (item_extract_target target_status) rows))"

definition select_targets_safe :: "xml_receipt list \<Rightarrow> int \<Rightarrow> xml_receipt list" where
  \<comment> \<open>\<open>select_targets_safe\<close> of \<open>medi_xml_item_extract.py\<close>\<close>
  "select_targets_safe rows limit =
     db_select_target_xmls_for_item_extract rows (if limit \<le> 0 then 1000000 else limit) ''OK''"

text \<open>Two extracted receipts whose item extraction failed, the first one older.\<close>

definition failed_receipt :: "nat \<Rightarrow> string \<Rightarrow> nat \<Rightarrow> xml_receipt" where
  "failed_receipt i sha t =
     \<lparr> xr_xml_receipt_id = i, xr_zip_sha256 = ''z'', xr_zip_inner_path = ''DATA/'' @ sha,
       xr_zip_inner_path_sha256 = None, xr_xml_sha256 = sha, xr_file_size = Some 1,
       xr_file_mtime = None, xr_status = ''OK'', xr_error_code = None,
       xr_error_message = None, xr_facility_code = None, xr_facility_name = None,
       xr_first_seen_run_id = 1, xr_first_seen_at = 0, xr_last_seen_run_id = 1,
       xr_last_seen_at = 0, xr_document_id = None,
       xr_items_extract_status = Some ''ERROR'', xr_items_extracted_run_id = Some 2,
       xr_updated_at = t \<rparr>"

section \<open>XML documents\<close>

text \<open>
  A parsed document is its root element. An element has a namespace and a local name,
  its attributes in document order (names in Clark notation, \<open>{ns}local\<close>, as lxml gives
  them), the text before its first child, its children, and the text that follows it in
  its parent. Comments and processing instructions are not part of the model.
\<close>

datatype xml_node =
  Element (el_ns: string) (el_local: string) (el_attrib: "(string \<times> string) list")
          (el_text: "string option") (el_children: "xml_node list") (el_tail: "string option")

definition NS_HL7 :: string where
  "NS_HL7 = ''urn:hl7-org:v3''"


definition elem_get :: "xml_node \<Rightarrow> string \<Rightarrow> string option" where
  \<comment> \<open>\<open>node.get(name)\<close>\<close>
  "elem_get e k = map_of (el_attrib e) k"

definition is_hl7 :: "string \<Rightarrow> xml_node \<Rightarrow> bool" where
  \<comment> \<open>the node test \<open>hl7:name\<close> (also written \<open>cda:name\<close>: both prefixes are bound to
      \<open>urn:hl7-org:v3\<close>)\<close>
  "is_hl7 name e = (el_ns e = NS_HL7 \<and> el_local e = name)"

definition child_elems :: "string \<Rightarrow> xml_node \<Rightarrow> xml_node list" where
  \<comment> \<open>the XPath step \<open>./hl7:name\<close>\<close>
  "child_elems name e = filter (is_hl7 name) (el_children e)"

definition truthy :: "string option \<Rightarrow> bool" where
  \<comment> \<open>Python truth of an optional string: \<open>None\<close> and \<open>""\<close> are false\<close>
  "truthy v = (case v of None \<Rightarrow> False | Some s \<Rightarrow> s \<noteq> [])"

section \<open>XML-Extract: the CDA index step\<close>

definition xpath_clinical_document_id :: "xml_node \<Rightarrow> xml_node list" where
  \<comment> \<open>\<open>tree.xpath("/hl7:ClinicalDocument/hl7:id")\<close>\<close>
  "xpath_clinical_document_id root =
     (if is_hl7 ''ClinicalDocument'' root then child_elems ''id'' root else [])"

definition extract_document_id :: "xml_node \<Rightarrow> string option \<times> string" where
  \<comment> \<open>\<open>_extract_document_id\<close>: the pair (document\_id, result)\<close>
  "extract_document_id tree =
     (case xpath_clinical_document_id tree of
        [] \<Rightarrow> (None, ''ERROR'')
      | id_node # _ \<Rightarrow>
          (let root = elem_get id_node ''root'';
               ext = elem_get id_node ''extension'';
               nf = elem_get id_node ''nullFlavor''
           in if truthy root
              then (Some (if truthy ext then or_str root [] @ ''|'' @ or_str ext []
                          else or_str root []), ''OK'')
              else if truthy nf then (None, ''SKIP'')
              else (None, ''SKIP'')))"

text \<open>
  A row of \<open>medi_xml_process_logs\<close> written for one document: its step and its result.
  The message text is left out.
\<close>

type_synonym process_log = "string \<times> string"

definition cda_index_step :: "xml_node \<Rightarrow> string option \<times> process_log" where
  \<comment> \<open>step 2 of the loop body of \<open>xml_extract_phase\<close>: the document id that the later
      steps see, and the log row\<close>
  "cda_index_step tree =
     (let (doc_id, cda_result) = extract_document_id tree in
      if cda_result = ''OK'' then (doc_id, (''CDA_INDEX'', ''OK''))
      else if cda_result = ''SKIP'' then (None, (''CDA_INDEX'', ''SKIP''))
      else (None, (''CDA_INDEX'', ''ERROR'')))"

definition xsd_step :: "(bool \<times> string) option \<Rightarrow> int option \<times> process_log" where
  \<comment> \<open>step 3: the argument is \<open>None\<close> when the XSD root is unset or missing, else the pair
      (ok, message) that \<open>validate_xsd\<close> returned; the result is \<open>xsd_valid\<close> and the log row\<close>
  "xsd_step v =
     (case v of
        None \<Rightarrow> (None, (''XSD_VALIDATE'', ''SKIP''))
      | Some (xsd_ok, xsd_msg) \<Rightarrow>
          if prefix ''xsd file not found'' (py_lower (py_strip xsd_msg))
          then (None, (''XSD_VALIDATE'', ''SKIP''))
          else if xsd_ok then (Some 1, (''XSD_VALIDATE'', ''OK''))
          else (Some 0, (''XSD_VALIDATE'', ''ERROR'')))"

record xml_index_update =
  \<comment> \<open>the arguments of the final \<open>db_update_xml_index_fields\<close>\<close>
  upd_status :: string
  upd_error_code :: "string option"
  upd_document_id :: "string option"
  upd_extracted_run_id :: "int option"

definition extract_parsed_xml ::
  "int \<Rightarrow> xml_node \<Rightarrow> (bool \<times> string) option \<Rightarrow> bool \<Rightarrow> process_log list \<times> xml_index_update" where
  \<comment> \<open>the loop body of \<open>xml_extract_phase\<close> from step 2 on, for a document that lxml has
      parsed: the log rows in the order written and the receipt update.
      \<open>ledger_ok\<close> tells whether \<open>db_upsert_xml_ledger\<close> returned or raised.\<close>
  "extract_parsed_xml run_id tree xsd ledger_ok =
     (let (doc_id, cda_log) = cda_index_step tree;
          (xsd_valid, xsd_log) = xsd_step xsd;
          items_log = (''EXTRACT_ITEMS'', ''OK'')
      in if ledger_ok
         then ([cda_log, xsd_log, items_log, (''LEDGER'', ''OK'')],
               \<lparr> upd_status = ''OK'', upd_error_code = None, upd_document_id = doc_id,
                 upd_extracted_run_id = Some run_id \<rparr>)
         else ([cda_log, xsd_log, items_log, (''LEDGER'', ''ERROR'')],
               \<lparr> upd_status = ''ERROR'', upd_error_code = Some ''LEDGER_UPSERT'',
                 upd_document_id = doc_id, upd_extracted_run_id = None \<rparr>))"

text \<open>A CDA document whose \<open>id\<close> element carries no attribute at all.\<close>

definition cda_with_bare_id :: xml_node where
  "cda_with_bare_id =
     Element NS_HL7 ''ClinicalDocument'' [] None
       [Element NS_HL7 ''id'' [] None [] None] None"

text \<open>A CDA document whose \<open>id\<close> element has a root and an extension.\<close>

definition cda_with_root_id :: xml_node where
  "cda_with_root_id =
     Element NS_HL7 ''ClinicalDocument'' [] None
       [Element NS_HL7 ''id'' [(''root'', ''1.2.392''), (''extension'', ''42'')] None [] None] None"

section \<open>Password Resolver\<close>

text \<open>
  Rows of \<open>medi_zip_passwords\<close>, columns prefixed \<open>zp_\<close>. A nullable column is an
  \<open>option\<close>; \<open>priority\<close> and \<open>is_active\<close> are taken to be non-null integers.
\<close>

record zip_password =
  zp_zip_password_id :: nat
  zp_scope_type :: string
  zp_zip_sha256 :: "string option"
  zp_zip_name :: "string option"
  zp_facility_code :: "string option"
  zp_facility_folder_name :: "string option"
  zp_password_text :: "string option"
  zp_priority :: int
  zp_is_active :: int

definition password_matches :: "string \<Rightarrow> string \<Rightarrow> string \<Rightarrow> string \<Rightarrow> zip_password \<Rightarrow> bool" where
  \<comment> \<open>the \<open>WHERE\<close> clause of \<open>get_password_candidates\<close>; a comparison with a NULL column
      is not true\<close>
  "password_matches facility_code facility_folder_name zip_name zip_sha256 r =
     (zp_is_active r = 1
      \<and> ((zp_scope_type r = ''ZIP_SHA256'' \<and> zp_zip_sha256 r = Some zip_sha256)
         \<or> (zp_scope_type r = ''ZIP_NAME'' \<and> zp_zip_name r = Some zip_name)
         \<or> (zp_scope_type r = ''FACILITY''
             \<and> (zp_facility_code r = Some facility_code
                \<or> zp_facility_folder_name r = Some facility_folder_name))))"

definition scope_rank :: "string \<Rightarrow> nat" where
  \<comment> \<open>the \<open>CASE scope_type\<close> of the \<open>ORDER BY\<close>\<close>
  "scope_rank s =
     (if s = ''ZIP_SHA256'' then 10
      else if s = ''ZIP_NAME'' then 20
      else if s = ''FACILITY'' then 30
      else 99)"

definition password_order :: "zip_password \<Rightarrow> nat \<times> int \<times> nat" where
  \<comment> \<open>\<open>ORDER BY CASE ..., priority ASC, zip_password_id ASC\<close>, compared lexicographically\<close>
  "password_order r = (scope_rank (zp_scope_type r), zp_priority r, zp_zip_password_id r)"

definition select_password_rows ::
  "zip_password list \<Rightarrow> string \<Rightarrow> string \<Rightarrow> string \<Rightarrow> string \<Rightarrow> zip_password list" where
  \<comment> \<open>the rows that \<open>cur.fetchall()\<close> returns\<close>
  "select_password_rows tbl facility_code facility_folder_name zip_name zip_sha256 =
     sort_key password_order
       (filter (password_matches facility_code facility_folder_name zip_name zip_sha256) tbl)"

fun collect_passwords :: "string option list \<Rightarrow> string set \<Rightarrow> string list \<Rightarrow> string list" where
  \<comment> \<open>the loop over the texts with its \<open>seen\<close> set and its \<open>out\<close> list:
      \<open>pw = (text or "").strip()\<close>, skipped when empty or already seen\<close>
  "collect_passwords [] seen out = out"
| "collect_passwords (t # ts) seen out =
     (let pw = py_strip (or_str t []) in
      if pw = [] then collect_passwords ts seen out
      else if pw \<in> seen then collect_passwords ts seen out
      else collect_passwords ts (insert pw seen) (out @ [pw]))"

definition get_password_candidates ::
  "zip_password list \<Rightarrow> string \<Rightarrow> string \<Rightarrow> string \<Rightarrow> string \<Rightarrow> string list" where
  \<comment> \<open>\<open>get_password_candidates(cur, facility_code=..., facility_folder_name=...,
      zip_name=..., zip_sha256=...)\<close>\<close>
  "get_password_candidates tbl facility_code facility_folder_name zip_name zip_sha256 =
     collect_passwords
       (map zp_password_text
          (select_password_rows tbl facility_code facility_folder_name zip_name zip_sha256))
       {} []"


definition first_occurrences :: "'a list \<Rightarrow> 'a list" where
  \<comment> \<open>every element once, at the place of its first occurrence\<close>
  "first_occurrences xs = rev (remdups (rev xs))"



section \<open>ZIP-Import: extracting an archive\<close>

text \<open>
  The scratch directory after an extraction is a list of file-system nodes. For a
  file, the model keeps what Stage F reads from it: the SHA-256 of its content, its size
  and modification time (\<open>stat\<close>), and the error of \<open>ET.parse\<close> if it is not well-formed.
\<close>

record file_info =
  fi_sha256 :: string
  fi_size :: int
  fi_mtime :: string
  fi_parse_error :: "string option"

datatype fs_node = File string file_info | Dir string "fs_node list"

text \<open>
  Exceptions are values. \<open>OtherException\<close> stands for any exception class that is
  neither \<open>RuntimeError\<close>, \<open>FileNotFoundError\<close> nor \<open>BadZipFile\<close> (nor a subclass of
  one of them); the argument is \<open>str(e)\<close>.
\<close>

datatype py_exception =
  RuntimeError string | FileNotFoundError string | BadZipFile string | OtherException string

fun exc_str :: "py_exception \<Rightarrow> string" where
  "exc_str (RuntimeError m) = m"
| "exc_str (FileNotFoundError m) = m"
| "exc_str (BadZipFile m) = m"
| "exc_str (OtherException m) = m"

text \<open>
  An archive on disk, as \<open>zipfile\<close> presents it: the exception that opening it raises,
  if any; whether a member has the encryption flag; and what \<open>extractall\<close> does for a
  given password text (\<open>None\<close>: no password), either an exception or the extracted tree.
\<close>

record zip_file =
  zf_open_error :: "py_exception option"
  zf_encrypted :: bool
  zf_extractall :: "string option \<Rightarrow> py_exception + fs_node list"

record ZipExtractResult =
  ok :: bool
  error_code :: "string option"
  message :: "string option"
  used_password_text :: "string option"

definition extract_failed :: "string \<Rightarrow> string \<Rightarrow> ZipExtractResult \<times> fs_node list" where
  "extract_failed code msg =
     (\<lparr> ok = False, error_code = Some code, message = Some msg, used_password_text = None \<rparr>, [])"

definition extract_succeeded :: "string option \<Rightarrow> fs_node list \<Rightarrow> ZipExtractResult \<times> fs_node list" where
  "extract_succeeded pw tree =
     (\<lparr> ok = True, error_code = None, message = None, used_password_text = pw \<rparr>, tree)"

fun try_passwords ::
  "zip_file \<Rightarrow> string option list \<Rightarrow> py_exception option \<Rightarrow> string
     \<Rightarrow> ZipExtractResult \<times> fs_node list" where
  \<comment> \<open>the loop \<open>for pw_text in candidates\<close> of \<open>extract_zip_to_temp\<close> with its variables
      \<open>last_err\<close> and \<open>last_runtime_msg\<close>, and the statements after the loop\<close>
  "try_passwords zf [] last_err last_runtime_msg =
     extract_failed ''ZIP_PASSWORD''
       (case last_err of
          Some e \<Rightarrow> take 2000 (exc_str e)
        | None \<Rightarrow> if last_runtime_msg \<noteq> [] then take 2000 last_runtime_msg
                  else ''encrypted zip: password required'')"
| "try_passwords zf (pw_text # rest) last_err last_runtime_msg =
     (case zf_extractall zf pw_text of
        Inr tree \<Rightarrow> extract_succeeded pw_text tree
      | Inl (RuntimeError msg) \<Rightarrow> try_passwords zf rest (Some (RuntimeError msg)) msg
      | Inl (FileNotFoundError msg) \<Rightarrow> extract_failed ''ZIP_LONG_PATH'' (take 2000 msg)
      | Inl e \<Rightarrow> try_passwords zf rest (Some e) last_runtime_msg)"

definition outer_handler :: "py_exception \<Rightarrow> ZipExtractResult \<times> fs_node list" where
  \<comment> \<open>the three \<open>except\<close> clauses of the outer \<open>try\<close>\<close>
  "outer_handler e =
     (case e of
        BadZipFile m \<Rightarrow> extract_failed ''ZIP_UNEXPECTED'' (''File is not a zip file: '' @ m)
      | FileNotFoundError m \<Rightarrow> extract_failed ''ZIP_LONG_PATH'' (take 2000 m)
      | _ \<Rightarrow> extract_failed ''ZIP_UNEXPECTED'' (take 2000 (exc_str e)))"

definition candidates :: "string list \<Rightarrow> string option list" where
  \<comment> \<open>the list \<open>candidates\<close>: the trimmed, non-empty, not yet seen passwords in order,
      then \<open>None\<close>\<close>
  "candidates pwd_candidates =
     map Some (collect_passwords (map Some pwd_candidates) {} []) @ [None]"

definition extract_zip_to_temp :: "zip_file \<Rightarrow> string list \<Rightarrow> ZipExtractResult \<times> fs_node list" where
  \<comment> \<open>\<open>extract_zip_to_temp(zip_path, temp_dir, pwd_candidates=...)\<close>: the result and the
      content of \<open>temp_dir\<close> (empty after a failure: nothing reads it then)\<close>
  "extract_zip_to_temp zf pwd_candidates =
     (case zf_open_error zf of
        Some e \<Rightarrow> outer_handler e
      | None \<Rightarrow>
          if \<not> zf_encrypted zf
          then (case zf_extractall zf None of
                  Inr tree \<Rightarrow> extract_succeeded None tree
                | Inl e \<Rightarrow> outer_handler e)
          else try_passwords zf (candidates pwd_candidates) None [])"


section \<open>ZIP-Import: the structure of an extracted archive\<close>

text \<open>
  Two things depend on the operating system: the path separator that \<open>str(path)\<close>
  uses, and whether the pattern \<open>*.xml\<close> of \<open>rglob\<close> matches a file name (the match
  folds case on Windows).
\<close>

record platform =
  os_sep :: char
  glob_xml :: "string \<Rightarrow> bool"

fun is_dir :: "fs_node \<Rightarrow> bool" where
  "is_dir (Dir n cs) = True"
| "is_dir (File n i) = False"

fun is_file :: "fs_node \<Rightarrow> bool" where
  "is_file (File n i) = True"
| "is_file (Dir n cs) = False"

fun node_name :: "fs_node \<Rightarrow> string" where
  "node_name (File n i) = n"
| "node_name (Dir n cs) = n"

text \<open>An entry is a node with its path relative to the scratch directory.\<close>

type_synonym fs_entry = "string list \<times> fs_node"

fun walk :: "string list \<Rightarrow> fs_node list \<Rightarrow> fs_entry list" where
  \<comment> \<open>\<open>dir.rglob("*")\<close>: every node below the directory at path \<open>pfx\<close> whose children are
      given\<close>
  "walk pfx [] = []"
| "walk pfx (File n i # ns) = (pfx @ [n], File n i) # walk pfx ns"
| "walk pfx (Dir n cs # ns) = (pfx @ [n], Dir n cs) # walk (pfx @ [n]) cs @ walk pfx ns"

fun path_str :: "char \<Rightarrow> string list \<Rightarrow> string" where
  \<comment> \<open>\<open>str(path)\<close> of a relative path\<close>
  "path_str sep [] = []"
| "path_str sep [n] = n"
| "path_str sep (n # ns) = n @ sep # path_str sep ns"

definition find_data_dirs :: "platform \<Rightarrow> fs_node list \<Rightarrow> fs_entry list" where
  \<comment> \<open>\<open>find_data_dirs\<close>: the directories named DATA, sorted by depth, then path\<close>
  "find_data_dirs plat root =
     sort_key (\<lambda>e. (length (fst e), path_str (os_sep plat) (fst e)))
       (filter (\<lambda>e. is_dir (snd e) \<and> node_name (snd e) = ''DATA'') (walk [] root))"

definition xml_entry :: "platform \<Rightarrow> fs_entry \<Rightarrow> bool" where
  \<comment> \<open>an entry that \<open>rglob("*.xml")\<close> yields and that \<open>is_file()\<close>\<close>
  "xml_entry plat e = (is_file (snd e) \<and> glob_xml plat (node_name (snd e)))"

definition entries_under :: "fs_entry \<Rightarrow> fs_entry list" where
  "entries_under d = (case snd d of Dir n cs \<Rightarrow> walk (fst d) cs | File n i \<Rightarrow> [])"

definition list_xml_files_anywhere :: "platform \<Rightarrow> fs_node list \<Rightarrow> fs_entry list" where
  "list_xml_files_anywhere plat root =
     sort_key (\<lambda>e. path_str (os_sep plat) (fst e)) (filter (xml_entry plat) (walk [] root))"

definition list_xml_files_under_data_dirs :: "platform \<Rightarrow> fs_entry list \<Rightarrow> fs_entry list" where
  \<comment> \<open>\<open>xs.extend(...)\<close> for every DATA directory, then the sort by path\<close>
  "list_xml_files_under_data_dirs plat data_dirs =
     sort_key (\<lambda>e. path_str (os_sep plat) (fst e))
       (concat (map (\<lambda>d. filter (xml_entry plat) (entries_under d)) data_dirs))"

definition zip_has_any_file :: "fs_node list \<Rightarrow> bool" where
  "zip_has_any_file root = list_ex (\<lambda>e. is_file (snd e)) (walk [] root)"

text \<open>
  The entries of the list \<open>messages\<close>, which the code joins with \<open>" | "\<close> into
  \<open>structure_message\<close>. The fixed Japanese sentences are constructors.
\<close>

datatype struct_msg =
  Msg_extract_failed string
  | Msg_text string
  | Msg_empty_content
  | Msg_multi_data_dir nat
  | Msg_data_samples "string list"
  | Msg_no_data_dir
  | Msg_zero_xml_under_data
  | Msg_no_xml_in_zip

record zip_structure =
  st_structure_status :: string
  st_error_code :: "string option"
  st_error_message :: "string option"
  st_messages :: "struct_msg list"
  st_data_dir_count :: "int option"
  st_data_xml_count :: "int option"

definition extract_failure_structure :: "ZipExtractResult \<Rightarrow> zip_structure" where
  \<comment> \<open>step 1 of the loop body of \<open>zip_import_phase\<close> when \<open>ext_res.ok\<close> is false\<close>
  "extract_failure_structure ext_res =
     (let code = or_str (error_code ext_res) ''ZIP_UNEXPECTED'';
          msg = take 2000 (or_str (message ext_res) []);
          error_message = (if msg = [] then None else Some msg)
      in \<lparr> st_structure_status = ''ERROR'', st_error_code = Some code,
           st_error_message = error_message,
           st_messages = Msg_extract_failed code
                          # (case error_message of None \<Rightarrow> [] | Some m \<Rightarrow> [Msg_text m]),
           st_data_dir_count = None, st_data_xml_count = None \<rparr>)"

definition check_structure :: "platform \<Rightarrow> fs_node list \<Rightarrow> zip_structure" where
  \<comment> \<open>step 2 of the loop body of \<open>zip_import_phase\<close>, for an archive that was extracted\<close>
  "check_structure plat root =
     (if \<not> zip_has_any_file root
      then \<lparr> st_structure_status = ''ERROR'', st_error_code = Some ''ZIP_EMPTY_CONTENT'',
             st_error_message = None, st_messages = [Msg_empty_content],
             st_data_dir_count = Some 0, st_data_xml_count = Some 0 \<rparr>
      else
        let data_dirs = find_data_dirs plat root;
            data_dir_count = length data_dirs;
            xml_files = (if data_dir_count \<ge> 1
                         then list_xml_files_under_data_dirs plat data_dirs
                         else list_xml_files_anywhere plat root);
            code1 = (if data_dir_count \<ge> 2 then Some ''STRUCT_MULTI_DATA_DIR''
                     else if data_dir_count \<ge> 1 then None
                     else Some ''STRUCT_NO_DATA_DIR'');
            msgs1 = (if data_dir_count \<ge> 2
                     then [Msg_multi_data_dir data_dir_count,
                           Msg_data_samples
                             (map (\<lambda>d. path_str (os_sep plat) (fst d)) (take 5 data_dirs))]
                     else if data_dir_count \<ge> 1 then []
                     else [Msg_no_data_dir]);
            data_xml_count = length xml_files
        in if data_xml_count > 0
           then \<lparr> st_structure_status = ''OK'', st_error_code = code1,
                  st_error_message = None, st_messages = msgs1,
                  st_data_dir_count = Some (int data_dir_count),
                  st_data_xml_count = Some (int data_xml_count) \<rparr>
           else if data_dir_count = 1
           then \<lparr> st_structure_status = ''ERROR'', st_error_code = Some ''STRUCT_ZERO_XML'',
                  st_error_message = None, st_messages = msgs1 @ [Msg_zero_xml_under_data],
                  st_data_dir_count = Some (int data_dir_count),
                  st_data_xml_count = Some (int data_xml_count) \<rparr>
           else \<lparr> st_structure_status = ''ERROR'',
                  st_error_code = Some (or_str code1 ''STRUCT_ZERO_XML''),
                  st_error_message = None, st_messages = msgs1 @ [Msg_no_xml_in_zip],
                  st_data_dir_count = Some (int data_dir_count),
                  st_data_xml_count = Some (int data_xml_count) \<rparr>)"

definition judge_zip :: "platform \<Rightarrow> zip_file \<Rightarrow> string list \<Rightarrow> zip_structure \<times> fs_node list" where
  \<comment> \<open>steps 1 and 2: extract with the candidates, then classify; also the content of the
      scratch directory\<close>
  "judge_zip plat zf pwd_candidates =
     (let (ext_res, root) = extract_zip_to_temp zf pwd_candidates in
      if \<not> ok ext_res then (extract_failure_structure ext_res, root)
      else (check_structure plat root, root))"







section \<open>ZIP-Import: receipts\<close>

text \<open>
  Rows of \<open>medi_zip_receipts\<close> (prefix \<open>zr_\<close>), \<open>medi_zip_receipt_runs\<close> (\<open>zrr_\<close>) and
  \<open>medi_xml_receipt_runs\<close> (\<open>xrr_\<close>). The table definitions are not part of the
  repository. The model takes from the code and from the specification's list of tables:
  \<open>zip_sha256\<close> is the unique key of the ZIP receipts, \<open>xml_sha256\<close> that of the XML
  receipts, and a run table has one row for each pair of run and hash.
\<close>

record zip_receipt =
  zr_zip_receipt_id :: nat
  zr_run_id :: int
  zr_first_seen_run_id :: int
  zr_first_seen_at :: nat
  zr_last_seen_run_id :: int
  zr_last_seen_at :: nat
  zr_facility_folder_name :: string
  zr_facility_code :: string
  zr_facility_name :: string
  zr_zip_name :: string
  zr_zip_path :: string
  zr_zip_sha256 :: string
  zr_structure_status :: string
  zr_error_code :: "string option"
  zr_error_message :: "string option"
  zr_structure_message :: "struct_msg list option"
  zr_data_dir_count :: "int option"
  zr_data_xml_count :: "int option"

record zip_receipt_run =
  zrr_run_id :: int
  zrr_zip_receipt_id :: nat
  zrr_zip_sha256 :: string
  zrr_action :: string
  zrr_message :: "string option"
  zrr_seen_at :: nat

record xml_receipt_run =
  xrr_run_id :: int
  xrr_xml_sha256 :: string
  xrr_xml_receipt_id :: "nat option"
  xrr_action :: string
  xrr_message :: "string option"
  xrr_created_at :: nat

text \<open>The answers of \<open>db_has_column\<close> for the optional columns.\<close>

record db_schema =
  has_zip_error_message :: bool
  has_zip_run_message :: bool
  has_xml_inner_sha :: bool
  has_xml_run_receipt_id :: bool

record medi_db =
  db_schema :: db_schema
  db_zip_passwords :: "zip_password list"
  db_zip_receipts :: "zip_receipt list"
  db_zip_next_id :: nat
  db_zip_receipt_runs :: "zip_receipt_run list"
  db_xml_receipts :: "xml_receipt list"
  db_xml_next_id :: nat
  db_xml_receipt_runs :: "xml_receipt_run list"



text \<open>The keyword arguments of \<open>db_upsert_zip_receipt\<close> other than the run.\<close>

record zip_receipt_args =
  za_facility_folder_name :: string
  za_facility_code :: string
  za_facility_name :: string
  za_zip_name :: string
  za_zip_path :: string
  za_zip_sha256 :: string
  za_structure :: zip_structure






definition norm_inner_path :: "string \<Rightarrow> string" where
  \<comment> \<open>\<open>_norm_inner_path\<close>: \<open>p.replace("\\", "/").lstrip("/")\<close>\<close>
  "norm_inner_path p =
     dropWhile (\<lambda>c. c = CHR ''/'') (map (\<lambda>c. if c = CHR 0x5C then CHR ''/'' else c) p)"

definition ensure_inner_sha :: "(string \<Rightarrow> string) \<Rightarrow> string \<Rightarrow> string option \<Rightarrow> string" where
  \<comment> \<open>\<open>_ensure_inner_sha\<close>; the first argument is the SHA-256 of a text\<close>
  "ensure_inner_sha sha256_text inner_path inner_sha =
     (let inner = norm_inner_path inner_path;
          v = py_strip (or_str inner_sha [])
      in if v \<noteq> [] then v else sha256_text inner)"

text \<open>The keyword arguments of \<open>db_upsert_xml_receipt\<close> other than the run.\<close>

record xml_receipt_args =
  xa_zip_sha256 :: string
  xa_zip_inner_path :: string
  xa_zip_inner_path_sha256 :: "string option"
  xa_xml_sha256 :: string
  xa_file_size :: "int option"
  xa_file_mtime :: "string option"
  xa_status :: string
  xa_error_code :: "string option"
  xa_error_message :: "string option"
  xa_facility_code :: "string option"
  xa_facility_name :: "string option"


definition xml_receipt_update ::
  "(string \<Rightarrow> string) \<Rightarrow> medi_db \<Rightarrow> int \<Rightarrow> nat \<Rightarrow> xml_receipt_args \<Rightarrow> xml_receipt \<Rightarrow> xml_receipt" where
  \<comment> \<open>the list \<open>updates\<close> of \<open>db_upsert_xml_receipt\<close>, applied to the existing row\<close>
  "xml_receipt_update sha256_text db run_id now a old =
     old \<lparr> xr_last_seen_run_id := run_id,
           xr_zip_inner_path_sha256 :=
             (if has_xml_inner_sha (db_schema db)
              then Some (ensure_inner_sha sha256_text (norm_inner_path (xa_zip_inner_path a))
                           (xa_zip_inner_path_sha256 a))
              else xr_zip_inner_path_sha256 old),
           xr_last_seen_at := now,
           xr_file_size := xa_file_size a,
           xr_file_mtime := xa_file_mtime a,
           xr_status := xa_status a,
           xr_error_code := xa_error_code a,
           xr_error_message := clip_text (xa_error_message a) 8000,
           xr_facility_code := xa_facility_code a,
           xr_facility_name := xa_facility_name a,
           xr_updated_at := now \<rparr>"



section \<open>ZIP-Import: one archive\<close>

definition parse_facility_folder_name :: "string \<Rightarrow> string \<times> string" where
  \<comment> \<open>\<open>parse_facility_folder_name\<close>: split at the first underscore\<close>
  "parse_facility_folder_name folder_name =
     (if CHR ''_'' \<in> set folder_name
      then (py_strip (takeWhile (\<lambda>c. c \<noteq> CHR ''_'') folder_name),
            py_strip (tl (dropWhile (\<lambda>c. c \<noteq> CHR ''_'') folder_name)))
      else (py_strip folder_name, []))"






text \<open>
  One archive of the input tree, as the loop of \<open>zip_import_phase\<close> meets it: the name of
  its facility folder, its name, its resolved path, its SHA-256 (\<open>None\<close> when the file
  cannot be read) and the archive itself.
\<close>

record zip_input =
  zi_facility_folder_name :: string
  zi_zip_name :: string
  zi_zip_abs :: string
  zi_zip_sha :: "string option"
  zi_archive :: zip_file



text \<open>
  The judgement of an archive and the arguments of its receipt, as \<open>import_zip\<close> computes
  them; they depend on the database only through the password table.
\<close>

definition zip_judgement :: "platform \<Rightarrow> medi_db \<Rightarrow> zip_input \<Rightarrow> string \<Rightarrow> zip_structure \<times> fs_node list" where
  "zip_judgement plat db z zip_sha =
     judge_zip plat (zi_archive z)
       (get_password_candidates (db_zip_passwords db)
          (fst (parse_facility_folder_name (zi_facility_folder_name z)))
          (zi_facility_folder_name z) (zi_zip_name z) zip_sha)"

definition zip_args :: "platform \<Rightarrow> medi_db \<Rightarrow> zip_input \<Rightarrow> string \<Rightarrow> zip_receipt_args" where
  "zip_args plat db z zip_sha =
     \<lparr> za_facility_folder_name = zi_facility_folder_name z,
       za_facility_code = fst (parse_facility_folder_name (zi_facility_folder_name z)),
       za_facility_name = snd (parse_facility_folder_name (zi_facility_folder_name z)),
       za_zip_name = zi_zip_name z, za_zip_path = zi_zip_abs z,
       za_zip_sha256 = zip_sha, za_structure = fst (zip_judgement plat db z zip_sha) \<rparr>"








section \<open>Item-Extract: the observations of a document\<close>































section \<open>Properties\<close>

lemma py_isspace_simps [simp]:
  "py_isspace CHR ''z'' = False" "py_isspace CHR ''p'' = False"
  "py_isspace CHR ''x'' = False" "py_isspace CHR ''l'' = False"
  "py_isspace CHR ''s'' = False" "py_isspace CHR ''f'' = False"
  "py_isspace CHR ''d'' = False" "py_isspace CHR ''m'' = False"
  "py_isspace CHR ''i'' = False"
  by (simp_all add: py_isspace_def)

lemma find_map_update:
  assumes "find P xs = Some x" and "\<And>y. P (f y) = P y"
  shows "find P (map (\<lambda>y. if P y then f y else y) xs) = Some (f x)"
  using assms by (induction xs) (auto split: if_splits)



subsection \<open>The CDA index step\<close>

lemma extract_document_id_no_id:
  "xpath_clinical_document_id tree = [] \<Longrightarrow> extract_document_id tree = (None, ''ERROR'')"
  by (simp add: extract_document_id_def)

lemma extract_document_id_root_ext:
  "xpath_clinical_document_id tree = id_node # rest \<Longrightarrow>
   elem_get id_node ''root'' = Some r \<Longrightarrow> r \<noteq> [] \<Longrightarrow>
   elem_get id_node ''extension'' = Some e \<Longrightarrow> e \<noteq> [] \<Longrightarrow>
   extract_document_id tree = (Some (r @ ''|'' @ e), ''OK'')"
  by (simp add: extract_document_id_def truthy_def or_str_def)

lemma extract_document_id_root_only:
  "xpath_clinical_document_id tree = id_node # rest \<Longrightarrow>
   elem_get id_node ''root'' = Some r \<Longrightarrow> r \<noteq> [] \<Longrightarrow>
   \<not> truthy (elem_get id_node ''extension'') \<Longrightarrow>
   extract_document_id tree = (Some r, ''OK'')"
  by (simp add: extract_document_id_def truthy_def or_str_def)

lemma extract_document_id_no_root:
  "xpath_clinical_document_id tree = id_node # rest \<Longrightarrow>
   \<not> truthy (elem_get id_node ''root'') \<Longrightarrow>
   extract_document_id tree = (None, ''SKIP'')"
  by (simp add: extract_document_id_def)

lemma cda_index_step_result:
  "extract_document_id tree = (d, ''OK'') \<Longrightarrow> cda_index_step tree = (d, (''CDA_INDEX'', ''OK''))"
  "extract_document_id tree = (None, ''SKIP'') \<Longrightarrow> cda_index_step tree = (None, (''CDA_INDEX'', ''SKIP''))"
  "extract_document_id tree = (None, ''ERROR'') \<Longrightarrow> cda_index_step tree = (None, (''CDA_INDEX'', ''ERROR''))"
  by (simp_all add: cda_index_step_def)

lemma bare_id_nodes:
  "xpath_clinical_document_id cda_with_bare_id = [Element NS_HL7 ''id'' [] None [] None]"
  by (simp add: xpath_clinical_document_id_def cda_with_bare_id_def is_hl7_def child_elems_def)

lemma root_id_nodes:
  "xpath_clinical_document_id cda_with_root_id
     = [Element NS_HL7 ''id'' [(''root'', ''1.2.392''), (''extension'', ''42'')] None [] None]"
  by (simp add: xpath_clinical_document_id_def cda_with_root_id_def is_hl7_def child_elems_def)

text \<open>
  C3, as the claim states it, fails: for a well-formed CDA whose \<open>id\<close> element has neither
  \<open>root\<close> nor \<open>nullFlavor\<close>, the step logs SKIP, not ERROR.
\<close>

theorem cda_index_bare_id_is_skip:
  "xpath_clinical_document_id cda_with_bare_id = [Element NS_HL7 ''id'' [] None [] None]
   \<and> elem_get (Element NS_HL7 ''id'' [] None [] None) ''root'' = None
   \<and> elem_get (Element NS_HL7 ''id'' [] None [] None) ''nullFlavor'' = None
   \<and> cda_index_step cda_with_bare_id = (None, (''CDA_INDEX'', ''SKIP''))
   \<and> snd (snd (cda_index_step cda_with_bare_id)) \<noteq> ''ERROR''"
proof -
  have n: "\<not> truthy (elem_get (Element NS_HL7 ''id'' [] None [] None) ''root'')"
    by (simp add: truthy_def elem_get_def)
  have "cda_index_step cda_with_bare_id = (None, (''CDA_INDEX'', ''SKIP''))"
    using cda_index_step_result(2) [OF extract_document_id_no_root [OF bare_id_nodes n]] .
  then show ?thesis
    by (simp add: bare_id_nodes elem_get_def)
qed

text \<open>
  C3, amended. In the CDA index step: when \<open>/ClinicalDocument/id\<close> is missing the log
  result is ERROR and the document id is null; when its first \<open>id\<close> element has a
  non-empty \<open>root\<close>, the document id is \<open>root|extension\<close> for a non-empty \<open>extension\<close>
  and \<open>root\<close> alone otherwise, with result OK; in every other case (with or without
  \<open>nullFlavor\<close>) the document id is null and the result is SKIP. Whatever the result,
  the XSD, item and ledger steps follow, and the receipt update carries the document id
  of the step.
\<close>

theorem cda_index_step_policy:
  "(xpath_clinical_document_id tree = [] \<longrightarrow>
      cda_index_step tree = (None, (''CDA_INDEX'', ''ERROR'')))
   \<and> (xpath_clinical_document_id tree = id_node # rest
        \<and> elem_get id_node ''root'' = Some r \<and> r \<noteq> []
        \<and> elem_get id_node ''extension'' = Some e \<and> e \<noteq> [] \<longrightarrow>
      cda_index_step tree = (Some (r @ ''|'' @ e), (''CDA_INDEX'', ''OK'')))
   \<and> (xpath_clinical_document_id tree = id_node # rest
        \<and> elem_get id_node ''root'' = Some r \<and> r \<noteq> []
        \<and> \<not> truthy (elem_get id_node ''extension'') \<longrightarrow>
      cda_index_step tree = (Some r, (''CDA_INDEX'', ''OK'')))
   \<and> (xpath_clinical_document_id tree = id_node # rest
        \<and> \<not> truthy (elem_get id_node ''root'') \<longrightarrow>
      cda_index_step tree = (None, (''CDA_INDEX'', ''SKIP'')))
   \<and> fst (extract_parsed_xml run_id tree xsd ledger_ok)
       = [snd (cda_index_step tree), snd (xsd_step xsd), (''EXTRACT_ITEMS'', ''OK''),
          (''LEDGER'', if ledger_ok then ''OK'' else ''ERROR'')]
   \<and> upd_document_id (snd (extract_parsed_xml run_id tree xsd ledger_ok))
       = fst (cda_index_step tree)"
proof -
  have a: "xpath_clinical_document_id tree = [] \<longrightarrow>
      cda_index_step tree = (None, (''CDA_INDEX'', ''ERROR''))"
    using cda_index_step_result(3) extract_document_id_no_id by blast
  have b: "xpath_clinical_document_id tree = id_node # rest
        \<and> elem_get id_node ''root'' = Some r \<and> r \<noteq> []
        \<and> elem_get id_node ''extension'' = Some e \<and> e \<noteq> [] \<longrightarrow>
      cda_index_step tree = (Some (r @ ''|'' @ e), (''CDA_INDEX'', ''OK''))"
    using cda_index_step_result(1) extract_document_id_root_ext by blast
  have c: "xpath_clinical_document_id tree = id_node # rest
        \<and> elem_get id_node ''root'' = Some r \<and> r \<noteq> []
        \<and> \<not> truthy (elem_get id_node ''extension'') \<longrightarrow>
      cda_index_step tree = (Some r, (''CDA_INDEX'', ''OK''))"
    using cda_index_step_result(1) extract_document_id_root_only by blast
  have d: "xpath_clinical_document_id tree = id_node # rest
        \<and> \<not> truthy (elem_get id_node ''root'') \<longrightarrow>
      cda_index_step tree = (None, (''CDA_INDEX'', ''SKIP''))"
    using cda_index_step_result(2) extract_document_id_no_root by blast
  have e: "fst (extract_parsed_xml run_id tree xsd ledger_ok)
       = [snd (cda_index_step tree), snd (xsd_step xsd), (''EXTRACT_ITEMS'', ''OK''),
          (''LEDGER'', if ledger_ok then ''OK'' else ''ERROR'')]"
    by (simp add: extract_parsed_xml_def Let_def split: prod.splits)
  have f: "upd_document_id (snd (extract_parsed_xml run_id tree xsd ledger_ok))
       = fst (cda_index_step tree)"
    by (simp add: extract_parsed_xml_def Let_def split: prod.splits)
  from a b c d e f show ?thesis by blast
qed

theorem cda_index_step_policy_witness:
  "xpath_clinical_document_id (Element NS_HL7 ''ClinicalDocument'' [] None [] None) = []
   \<and> cda_index_step (Element NS_HL7 ''ClinicalDocument'' [] None [] None)
       = (None, (''CDA_INDEX'', ''ERROR''))
   \<and> cda_index_step cda_with_root_id = (Some ''1.2.392|42'', (''CDA_INDEX'', ''OK''))
   \<and> cda_index_step cda_with_bare_id = (None, (''CDA_INDEX'', ''SKIP''))"
proof -
  let ?empty = "Element NS_HL7 ''ClinicalDocument'' [] None [] None"
  let ?rid = "Element NS_HL7 ''id'' [(''root'', ''1.2.392''), (''extension'', ''42'')] None [] None"
  let ?bid = "Element NS_HL7 ''id'' [] None [] None"
  have h1: "xpath_clinical_document_id ?empty = []"
    by (simp add: xpath_clinical_document_id_def is_hl7_def child_elems_def)
  have g: "elem_get ?rid ''root'' = Some ''1.2.392''" "''1.2.392'' \<noteq> []"
    "elem_get ?rid ''extension'' = Some ''42''" "''42'' \<noteq> []"
    by (simp_all add: elem_get_def)
  have n: "\<not> truthy (elem_get ?bid ''root'')"
    by (simp add: truthy_def elem_get_def)
  have 1: "cda_index_step ?empty = (None, (''CDA_INDEX'', ''ERROR''))"
    using cda_index_step_policy [of ?empty] h1 by blast
  have 2: "cda_index_step cda_with_root_id = (Some (''1.2.392'' @ ''|'' @ ''42''), (''CDA_INDEX'', ''OK''))"
    using cda_index_step_policy [of cda_with_root_id ?rid "[]" "''1.2.392''" "''42''"]
      root_id_nodes g by blast
  have 3: "cda_index_step cda_with_bare_id = (None, (''CDA_INDEX'', ''SKIP''))"
    using cda_index_step_policy [of cda_with_bare_id ?bid "[]"] bare_id_nodes n by blast
  from h1 1 2 3 show ?thesis by simp
qed

subsection \<open>Password candidates\<close>



lemma first_occurrences_Nil [simp]: "first_occurrences [] = []"
  by (simp add: first_occurrences_def)



















subsection \<open>Password attempts\<close>












subsection \<open>Structure of an extracted archive\<close>













subsection \<open>Importing an archive\<close>













lemma zip_args_sha [simp]: "za_zip_sha256 (zip_args plat db z s) = s"
  by (simp add: zip_args_def)



subsection \<open>Extraction of an encrypted archive\<close>










lemma xml_receipt_update_sha [simp]:
  "xr_xml_sha256 (xml_receipt_update h db run now a r) = xr_xml_sha256 r"
  by (simp add: xml_receipt_update_def)

























text \<open>
  C8. With neither \<open>MEDI_SHARED_SCAN_EXTS\<close> nor \<open>MEDI_SHARED_EXTS\<close> set, the allow-list
  of Shared-Scan is the five extensions zip, pdf, xlsx, xls and xml; it is not the
  singleton of zip.
\<close>

theorem parse_allow_exts_unset:
  "parse_allow_exts (\<lambda>k. None) = {''zip'', ''pdf'', ''xlsx'', ''xls'', ''xml''}
   \<and> parse_allow_exts (\<lambda>k. None) \<noteq> {''zip''}"
proof -
  have split: "py_split CHR '','' ''zip,pdf,xlsx,xls,xml''
                 = [''zip'', ''pdf'', ''xlsx'', ''xls'', ''xml'']"
    by simp
  have strip: "py_strip ''zip,pdf,xlsx,xls,xml'' = ''zip,pdf,xlsx,xls,xml''"
    by (simp add: py_strip_def py_lstrip_def py_rstrip_def)
  have s: "py_strip ''zip'' = ''zip''" "py_strip ''pdf'' = ''pdf''"
    "py_strip ''xlsx'' = ''xlsx''" "py_strip ''xls'' = ''xls''" "py_strip ''xml'' = ''xml''"
    by (simp_all add: py_strip_def py_lstrip_def py_rstrip_def)
  have l: "py_lower ''zip'' = ''zip''" "py_lower ''pdf'' = ''pdf''"
    "py_lower ''xlsx'' = ''xlsx''" "py_lower ''xls'' = ''xls''" "py_lower ''xml'' = ''xml''"
    by (simp_all add: py_lower_def lower_char_def)
  have f: "filter (\<lambda>e. py_strip e \<noteq> []) [''zip'', ''pdf'', ''xlsx'', ''xls'', ''xml'']
             = [''zip'', ''pdf'', ''xlsx'', ''xls'', ''xml'']"
    by (simp add: s)
  have m: "map (\<lambda>e. py_lower (py_strip e)) [''zip'', ''pdf'', ''xlsx'', ''xls'', ''xml'']
             = [''zip'', ''pdf'', ''xlsx'', ''xls'', ''xml'']"
    by (simp add: s l)
  have "parse_allow_exts (\<lambda>k. None) = set [''zip'', ''pdf'', ''xlsx'', ''xls'', ''xml'']"
    by (simp only: parse_allow_exts_def or_str_def option.case Let_def strip split f m)
  then have eq: "parse_allow_exts (\<lambda>k. None) = {''zip'', ''pdf'', ''xlsx'', ''xls'', ''xml''}"
    by simp
  have "parse_allow_exts (\<lambda>k. None) \<noteq> {''zip''}"
  proof
    assume "parse_allow_exts (\<lambda>k. None) = {''zip''}"
    then have "''pdf'' \<in> {''zip''}" unfolding eq by blast
    then show False by simp
  qed
  with eq show ?thesis by simp
qed

subsection \<open>Re-scan of a known path\<close>

text \<open>
  C9. When Shared-Scan observes a path whose \<open>path_hash\<close> is already in the ledger, the
  upsert keeps the row's identity and its \<open>first_seen_at\<close>, \<open>sha256\<close> and
  \<open>manual_judgement\<close>, and overwrites \<open>stage_status\<close> with NEW and \<open>auto_judgement\<close>
  with UNKNOWN, whatever the stage status was before (INPUT\_COPIED and SKIPPED included).
\<close>

theorem rescan_resets_stage_status:
  assumes "sf_find tbl (sha1_text (fp_path fp)) = Some old"
  shows "\<exists>new. sf_find (scan_upsert sha1_text tbl fp ts) (sha1_text (fp_path fp)) = Some new
           \<and> stage_status new = ''NEW''
           \<and> auto_judgement new = ''UNKNOWN''
           \<and> first_seen_at new = first_seen_at old
           \<and> sha256 new = sha256 old
           \<and> manual_judgement new = manual_judgement old
           \<and> shared_file_id new = shared_file_id old
           \<and> length (sf_rows (scan_upsert sha1_text tbl fp ts)) = length (sf_rows tbl)"
proof -
  let ?h = "sha1_text (fp_path fp)"
  let ?row = "scan_row fp ts"
  have h: "sha1_text (path ?row) = ?h"
    by (simp add: scan_row_def)
  from assms have f: "find (\<lambda>r. path_hash r = ?h) (sf_rows tbl) = Some old"
    by (simp add: sf_find_def)
  have keep: "\<And>y. (path_hash (sf_update_row ?row y) = ?h) = (path_hash y = ?h)"
    by (simp add: sf_update_row_def)
  have rows: "sf_rows (scan_upsert sha1_text tbl fp ts)
                = map (\<lambda>r. if path_hash r = ?h then sf_update_row ?row r else r) (sf_rows tbl)"
    using assms by (simp add: scan_upsert_def db_upsert_shared_file_def h Let_def)
  have "sf_find (scan_upsert sha1_text tbl fp ts) ?h = Some (sf_update_row ?row old)"
    unfolding sf_find_def rows using find_map_update [OF f keep] .
  moreover have "stage_status (sf_update_row ?row old) = ''NEW''"
    "auto_judgement (sf_update_row ?row old) = ''UNKNOWN''"
    "first_seen_at (sf_update_row ?row old) = first_seen_at old"
    "sha256 (sf_update_row ?row old) = sha256 old"
    "manual_judgement (sf_update_row ?row old) = manual_judgement old"
    "shared_file_id (sf_update_row ?row old) = shared_file_id old"
    by (simp_all add: sf_update_row_def scan_row_def coalesce_def split: option.splits)
  moreover have "length (sf_rows (scan_upsert sha1_text tbl fp ts)) = length (sf_rows tbl)"
    by (simp add: rows)
  ultimately show ?thesis by blast
qed

theorem rescan_resets_stage_status_witness:
  "sf_find copied_ledger (tag_hash (fp_path rescanned_file)) = Some copied_row
   \<and> stage_status copied_row = ''INPUT_COPIED''
   \<and> (\<exists>new. sf_find (scan_upsert tag_hash copied_ledger rescanned_file ''2026-02-01'')
                  (tag_hash (fp_path rescanned_file)) = Some new
           \<and> stage_status new = ''NEW''
           \<and> auto_judgement new = ''UNKNOWN''
           \<and> first_seen_at new = first_seen_at copied_row
           \<and> sha256 new = sha256 copied_row
           \<and> manual_judgement new = manual_judgement copied_row
           \<and> shared_file_id new = shared_file_id copied_row
           \<and> length (sf_rows (scan_upsert tag_hash copied_ledger rescanned_file ''2026-02-01''))
               = length (sf_rows copied_ledger))"
proof -
  have h: "sf_find copied_ledger (tag_hash (fp_path rescanned_file)) = Some copied_row"
    by (simp add: sf_find_def copied_ledger_def copied_row_def rescanned_file_def tag_hash_def)
  have s: "stage_status copied_row = ''INPUT_COPIED''"
    by (simp add: copied_row_def)
  from rescan_resets_stage_status
         [where tbl = copied_ledger and ?sha1_text = tag_hash and fp = rescanned_file
            and old = copied_row and ts = "''2026-02-01''", OF h] h s
  show ?thesis by blast
qed

subsection \<open>Selection of receipts for Item-Extract\<close>

lemma select_targets_subset:
  "set (db_select_target_xmls_for_item_extract rows limit t)
     \<subseteq> {r \<in> set rows. item_extract_target t r}"
proof -
  have "set (db_select_target_xmls_for_item_extract rows limit t)
          \<subseteq> set (sort_key xr_updated_at (filter (item_extract_target t) rows))"
    unfolding db_select_target_xmls_for_item_extract_def by (rule set_take_subset)
  then show ?thesis by auto
qed

lemma select_targets_all:
  assumes "int (length (filter (item_extract_target t) rows)) \<le> limit"
  shows "set (db_select_target_xmls_for_item_extract rows limit t)
           = {r \<in> set rows. item_extract_target t r}"
proof -
  have "length (sort_key xr_updated_at (filter (item_extract_target t) rows)) \<le> nat limit"
    using assms by simp
  then have "take (nat limit) (sort_key xr_updated_at (filter (item_extract_target t) rows))
               = sort_key xr_updated_at (filter (item_extract_target t) rows)"
    by (rule take_all)
  then show ?thesis
    by (auto simp: db_select_target_xmls_for_item_extract_def)
qed

lemma take_sorted_le_rest:
  assumes "sorted (map f xs)" and "s \<in> set (take n xs)" and "r \<in> set xs"
    and "r \<notin> set (take n xs)"
  shows "f s \<le> f r"
proof -
  have "set xs = set (take n xs) \<union> set (drop n xs)"
    by (metis append_take_drop_id set_append)
  with assms(3,4) have r: "r \<in> set (drop n xs)" by blast
  have "sorted (map f (take n xs) @ map f (drop n xs))"
    using assms(1) by (metis append_take_drop_id map_append)
  then have "\<forall>x \<in> set (map f (take n xs)). \<forall>y \<in> set (map f (drop n xs)). x \<le> y"
    by (simp add: sorted_append)
  with assms(2) r show ?thesis by auto
qed

lemma select_targets_length:
  "length (db_select_target_xmls_for_item_extract rows limit t)
     = min (nat limit) (length (filter (item_extract_target t) rows))"
  by (simp add: db_select_target_xmls_for_item_extract_def min.commute)

lemma select_targets_sorted:
  "sorted (map xr_updated_at (db_select_target_xmls_for_item_extract rows limit t))"
proof -
  have "sorted (map xr_updated_at (sort_key xr_updated_at (filter (item_extract_target t) rows)))"
    by simp
  then have "sorted (take (nat limit)
      (map xr_updated_at (sort_key xr_updated_at (filter (item_extract_target t) rows))))"
    by (rule sorted_wrt_take)
  then show ?thesis
    by (simp add: db_select_target_xmls_for_item_extract_def take_map)
qed

lemma select_targets_oldest:
  assumes "s \<in> set (db_select_target_xmls_for_item_extract rows limit t)"
    and "r \<in> set rows" and "item_extract_target t r"
    and "r \<notin> set (db_select_target_xmls_for_item_extract rows limit t)"
  shows "xr_updated_at s \<le> xr_updated_at r"
proof -
  let ?xs = "sort_key xr_updated_at (filter (item_extract_target t) rows)"
  have 1: "sorted (map xr_updated_at ?xs)" by simp
  have 2: "s \<in> set (take (nat limit) ?xs)" "r \<notin> set (take (nat limit) ?xs)"
    using assms(1,4) by (simp_all add: db_select_target_xmls_for_item_extract_def)
  have 3: "r \<in> set ?xs" using assms(2,3) by simp
  from take_sorted_le_rest [OF 1 2(1) 3 2(2)] show ?thesis .
qed

text \<open>
  C10, as the claim states it, fails: with a batch limit of 1 and two receipts left in
  ERROR, a run selects the older one only, so the other is not re-selected by that run.
\<close>

theorem error_receipt_beyond_limit_not_selected:
  "select_targets_safe [failed_receipt 1 ''a'' 5, failed_receipt 2 ''b'' 9] 1
     = [failed_receipt 1 ''a'' 5]
   \<and> xr_status (failed_receipt 2 ''b'' 9) = ''OK''
   \<and> xr_items_extract_status (failed_receipt 2 ''b'' 9) = Some ''ERROR''
   \<and> failed_receipt 2 ''b'' 9 \<notin> set (select_targets_safe [failed_receipt 1 ''a'' 5, failed_receipt 2 ''b'' 9] 1)"
proof -
  have t: "item_extract_target ''OK'' (failed_receipt i s u)" for i s u
    by (simp add: item_extract_target_def failed_receipt_def)
  have u: "xr_updated_at (failed_receipt i s u) = u" for i s u
    by (simp add: failed_receipt_def)
  have sel: "select_targets_safe [failed_receipt 1 ''a'' 5, failed_receipt 2 ''b'' 9] 1
               = [failed_receipt 1 ''a'' 5]"
    by (simp add: select_targets_safe_def db_select_target_xmls_for_item_extract_def t u)
  have ne: "failed_receipt 2 ''b'' 9 \<noteq> failed_receipt 1 ''a'' 5"
    by (simp add: failed_receipt_def)
  show ?thesis
    unfolding sel using ne by (simp add: failed_receipt_def)
qed

text \<open>
  C10, amended. Item-Extract selects only receipts with \<open>status = 'OK'\<close> whose
  \<open>items_extract_status\<close> is NULL or different from OK, so a receipt whose
  \<open>items_extract_status\<close> is OK is never selected. A run takes at most as many receipts
  as its batch limit (one million when the configured limit is not positive), in the
  order of \<open>updated_at\<close>, the oldest first: no eligible receipt that is left out is
  older than a selected one. Hence a receipt with status OK left in ERROR or SKIP is
  selected by every run in which the eligible receipts number at most the batch limit.
\<close>

theorem item_extract_selection:
  "(\<forall>s \<in> set (select_targets_safe rows limit).
       s \<in> set rows \<and> xr_status s = ''OK'' \<and> xr_items_extract_status s \<noteq> Some ''OK'')
   \<and> (xr_items_extract_status r = Some ''OK'' \<longrightarrow> r \<notin> set (select_targets_safe rows limit))
   \<and> length (select_targets_safe rows limit)
       = min (nat (if limit \<le> 0 then 1000000 else limit))
             (length (filter (item_extract_target ''OK'') rows))
   \<and> int (length (select_targets_safe rows limit)) \<le> (if limit \<le> 0 then 1000000 else limit)
   \<and> sorted (map xr_updated_at (select_targets_safe rows limit))
   \<and> (\<forall>s \<in> set (select_targets_safe rows limit). \<forall>e \<in> set rows.
         item_extract_target ''OK'' e \<and> e \<notin> set (select_targets_safe rows limit)
         \<longrightarrow> xr_updated_at s \<le> xr_updated_at e)
   \<and> (r \<in> set rows \<and> xr_status r = ''OK''
        \<and> (xr_items_extract_status r = Some ''ERROR'' \<or> xr_items_extract_status r = Some ''SKIP'')
        \<and> int (length (filter (item_extract_target ''OK'') rows))
             \<le> (if limit \<le> 0 then 1000000 else limit)
      \<longrightarrow> r \<in> set (select_targets_safe rows limit))"
proof -
  let ?l = "if limit \<le> 0 then 1000000 else limit"
  have sub: "set (select_targets_safe rows limit) \<subseteq> {r \<in> set rows. item_extract_target ''OK'' r}"
    unfolding select_targets_safe_def by (rule select_targets_subset)
  have a: "\<forall>s \<in> set (select_targets_safe rows limit).
       s \<in> set rows \<and> xr_status s = ''OK'' \<and> xr_items_extract_status s \<noteq> Some ''OK''"
  proof
    fix s assume "s \<in> set (select_targets_safe rows limit)"
    with sub have "s \<in> set rows" "item_extract_target ''OK'' s" by auto
    then show "s \<in> set rows \<and> xr_status s = ''OK'' \<and> xr_items_extract_status s \<noteq> Some ''OK''"
      by (auto simp: item_extract_target_def)
  qed
  then have b: "xr_items_extract_status r = Some ''OK'' \<longrightarrow> r \<notin> set (select_targets_safe rows limit)"
    by blast
  have len: "length (select_targets_safe rows limit)
       = min (nat ?l) (length (filter (item_extract_target ''OK'') rows))"
    unfolding select_targets_safe_def by (rule select_targets_length)
  have "0 < ?l" by simp
  then have cap: "int (length (select_targets_safe rows limit)) \<le> ?l"
    unfolding len by linarith
  have ord: "sorted (map xr_updated_at (select_targets_safe rows limit))"
    unfolding select_targets_safe_def by (rule select_targets_sorted)
  have old: "\<forall>s \<in> set (select_targets_safe rows limit). \<forall>e \<in> set rows.
         item_extract_target ''OK'' e \<and> e \<notin> set (select_targets_safe rows limit)
         \<longrightarrow> xr_updated_at s \<le> xr_updated_at e"
    unfolding select_targets_safe_def using select_targets_oldest by blast
  have c: "r \<in> set rows \<and> xr_status r = ''OK''
        \<and> (xr_items_extract_status r = Some ''ERROR'' \<or> xr_items_extract_status r = Some ''SKIP'')
        \<and> int (length (filter (item_extract_target ''OK'') rows)) \<le> ?l
      \<longrightarrow> r \<in> set (select_targets_safe rows limit)"
  proof
    assume h: "r \<in> set rows \<and> xr_status r = ''OK''
        \<and> (xr_items_extract_status r = Some ''ERROR'' \<or> xr_items_extract_status r = Some ''SKIP'')
        \<and> int (length (filter (item_extract_target ''OK'') rows)) \<le> ?l"
    then have t: "item_extract_target ''OK'' r"
      by (auto simp: item_extract_target_def)
    from h have "set (select_targets_safe rows limit) = {r \<in> set rows. item_extract_target ''OK'' r}"
      unfolding select_targets_safe_def by (intro select_targets_all) simp
    with h t show "r \<in> set (select_targets_safe rows limit)" by simp
  qed
  from a b len cap ord old c show ?thesis by blast
qed

theorem item_extract_selection_witness:
  "failed_receipt 2 ''b'' 9 \<in> set [failed_receipt 1 ''a'' 5, failed_receipt 2 ''b'' 9]
   \<and> xr_status (failed_receipt 2 ''b'' 9) = ''OK''
   \<and> xr_items_extract_status (failed_receipt 2 ''b'' 9) = Some ''ERROR''
   \<and> int (length (filter (item_extract_target ''OK'')
                    [failed_receipt 1 ''a'' 5, failed_receipt 2 ''b'' 9])) \<le> 200
   \<and> failed_receipt 2 ''b'' 9
       \<in> set (select_targets_safe [failed_receipt 1 ''a'' 5, failed_receipt 2 ''b'' 9] 200)
   \<and> failed_receipt 1 ''a'' 5
       \<in> set (select_targets_safe [failed_receipt 2 ''b'' 9, failed_receipt 1 ''a'' 5] 1)
   \<and> item_extract_target ''OK'' (failed_receipt 2 ''b'' 9)
   \<and> failed_receipt 2 ''b'' 9
       \<notin> set (select_targets_safe [failed_receipt 2 ''b'' 9, failed_receipt 1 ''a'' 5] 1)
   \<and> length (select_targets_safe [failed_receipt 2 ''b'' 9, failed_receipt 1 ''a'' 5] 1) = 1
   \<and> xr_updated_at (failed_receipt 1 ''a'' 5) \<le> xr_updated_at (failed_receipt 2 ''b'' 9)"
proof -
  let ?rows = "[failed_receipt 1 ''a'' 5, failed_receipt 2 ''b'' 9]"
  let ?rev = "[failed_receipt 2 ''b'' 9, failed_receipt 1 ''a'' 5]"
  have 1: "failed_receipt 2 ''b'' 9 \<in> set ?rows" by simp
  have 2: "xr_status (failed_receipt 2 ''b'' 9) = ''OK''"
    "xr_items_extract_status (failed_receipt 2 ''b'' 9) = Some ''ERROR''"
    by (simp_all add: failed_receipt_def)
  have 3: "int (length (filter (item_extract_target ''OK'') ?rows)) \<le> 200"
    by (simp add: item_extract_target_def failed_receipt_def)
  have 4: "failed_receipt 2 ''b'' 9 \<in> set (select_targets_safe ?rows 200)"
    using item_extract_selection [of ?rows 200 "failed_receipt 2 ''b'' 9"] 1 2 3 by simp
  have t: "item_extract_target ''OK'' (failed_receipt i s u)" for i s u
    by (simp add: item_extract_target_def failed_receipt_def)
  have u: "xr_updated_at (failed_receipt i s u) = u" for i s u
    by (simp add: failed_receipt_def)
  have sel: "select_targets_safe ?rev 1 = [failed_receipt 1 ''a'' 5]"
    by (simp add: select_targets_safe_def db_select_target_xmls_for_item_extract_def t u)
  have ne: "failed_receipt 2 ''b'' 9 \<noteq> failed_receipt 1 ''a'' 5"
    by (simp add: failed_receipt_def)
  have 5: "failed_receipt 1 ''a'' 5 \<in> set (select_targets_safe ?rev 1)"
    "failed_receipt 2 ''b'' 9 \<notin> set (select_targets_safe ?rev 1)"
    "failed_receipt 2 ''b'' 9 \<in> set ?rev"
    unfolding sel using ne by simp_all
  have 6: "length (select_targets_safe ?rev 1) = 1"
    using item_extract_selection [of ?rev 1] by (simp add: t)
  have 7: "xr_updated_at (failed_receipt 1 ''a'' 5) \<le> xr_updated_at (failed_receipt 2 ''b'' 9)"
    using item_extract_selection [of ?rev 1] 5 t [of 2 "''b''" 9] by blast
  from 1 2 3 4 5 t [of 2 "''b''" 9] 6 7 show ?thesis by blast
qed

subsection \<open>Occurrence numbers of the observations\<close>
















end
